theory Spec2Isabelle
  imports Complex_Main "HOL-Library.Sublist"
begin

section \<open>Values and containers\<close>

text \<open>
  The numeric arguments of the program are Python floats (numpy float64 once they sit in
  a DataFrame column). A finite float is modelled as a \<open>real\<close>: rounding and overflow
  are not modelled. The special values that pandas produces when a Series is divided by
  zero are modelled: the result of such a division is a \<open>float64\<close>.
\<close>

datatype float64 = Finite real | PosInf | NegInf | NaN

text \<open>
  The exception the modelled code can raise before its own handler catches it: selecting a
  column that a frame does not have.
\<close>

datatype py_error = KeyError

text \<open>
  A pandas DataFrame over rows of type \<open>'a\<close>. \<open>NoColumns\<close> is the frame without any
  column (\<open>pd.DataFrame()\<close>, also \<open>pd.DataFrame([])\<close>): selecting a column of it raises
  KeyError. \<open>Frame rs\<close> has the columns of the row type and the rows \<open>rs\<close>, in order;
  \<open>Frame []\<close> has the columns and no row.
\<close>

datatype 'a dataframe = NoColumns | Frame "'a list"

text \<open>\<open>pd.DataFrame(records)\<close> for a list of dicts with the same keys.\<close>

definition DataFrame :: "'a list \<Rightarrow> 'a dataframe" where
  "DataFrame records = (if records = [] then NoColumns else Frame records)"

text \<open>\<open>Series.max()\<close> and \<open>Series.min()\<close>: NaN on a Series without values.\<close>

definition series_max :: "real list \<Rightarrow> float64" where
  "series_max xs = (case xs of [] \<Rightarrow> NaN | y # ys \<Rightarrow> Finite (fold max ys y))"

definition series_min :: "real list \<Rightarrow> float64" where
  "series_min xs = (case xs of [] \<Rightarrow> NaN | y # ys \<Rightarrow> Finite (fold min ys y))"

text \<open>
  \<open>Series.idxmax()\<close> and \<open>Series.idxmin()\<close> on the default index: the position of the
  first occurrence of the extremal value. The program calls them on a frame with rows only.
\<close>

definition idxmax :: "real list \<Rightarrow> nat" where
  "idxmax xs = (case xs of [] \<Rightarrow> 0
     | y # ys \<Rightarrow> length (takeWhile (\<lambda>x. x \<noteq> fold max ys y) xs))"

definition idxmin :: "real list \<Rightarrow> nat" where
  "idxmin xs = (case xs of [] \<Rightarrow> 0
     | y # ys \<Rightarrow> length (takeWhile (\<lambda>x. x \<noteq> fold min ys y) xs))"

text \<open>
  Elementwise Series arithmetic on float64. Dividing by zero does not raise: it gives an
  infinity with the sign of the numerator, and NaN for \<open>0 / 0\<close>. (Signed zeros are not
  modelled: a zero denominator is taken as \<open>+0.0\<close>.)
\<close>

definition series_div :: "real \<Rightarrow> real \<Rightarrow> float64" where
  "series_div x y =
     (if y = 0 then (if x > 0 then PosInf else if x < 0 then NegInf else NaN)
      else Finite (x / y))"

fun series_mul :: "float64 \<Rightarrow> real \<Rightarrow> float64" where
  "series_mul (Finite x) c = Finite (x * c)"
| "series_mul PosInf c = (if c > 0 then PosInf else if c < 0 then NegInf else NaN)"
| "series_mul NegInf c = (if c > 0 then NegInf else if c < 0 then PosInf else NaN)"
| "series_mul NaN c = NaN"

text \<open>\<open>Series.fillna(v)\<close> replaces NaN, and only NaN.\<close>

fun fillna :: "real \<Rightarrow> float64 \<Rightarrow> float64" where
  "fillna v NaN = Finite v"
| "fillna v x = x"

section \<open>modules/pnl\_calculator.py: single position\<close>

text \<open>The dict that \<open>calculate_pnl\<close> returns, one field per key.\<close>

record pnl_data =
  ticker :: string
  shares :: real
  avg_cost_jpy :: real
  current_price_local :: real
  current_price_jpy :: real
  exchange_rate :: real
  current_value_jpy :: real
  cost_basis_jpy :: real
  pnl_amount :: real
  pnl_percentage :: real

text \<open>
  The body of the \<open>try\<close> block of \<open>calculate_pnl\<close>. On floats no statement of it raises:
  the one division is guarded by \<open>cost_basis_jpy > 0\<close>.
\<close>

definition calculate_pnl_try ::
  "string \<Rightarrow> real \<Rightarrow> real \<Rightarrow> real \<Rightarrow> real \<Rightarrow> py_error + pnl_data" where
  "calculate_pnl_try tk n_shares avg_cost price_local rate =
     (let price_jpy = price_local * rate;
          value_jpy = price_jpy * n_shares;
          cost_basis = avg_cost * n_shares;
          pnl = value_jpy - cost_basis;
          pct = (if cost_basis > 0 then (pnl / cost_basis) * 100 else 0)
      in Inr \<lparr>ticker = tk, shares = n_shares, avg_cost_jpy = avg_cost,
              current_price_local = price_local, current_price_jpy = price_jpy,
              exchange_rate = rate, current_value_jpy = value_jpy,
              cost_basis_jpy = cost_basis, pnl_amount = pnl, pnl_percentage = pct\<rparr>)"

text \<open>The dict returned by the \<open>except Exception\<close> handler of \<open>calculate_pnl\<close>.\<close>

definition calculate_pnl_except :: "string \<Rightarrow> real \<Rightarrow> real \<Rightarrow> real \<Rightarrow> pnl_data" where
  "calculate_pnl_except tk n_shares avg_cost rate =
     \<lparr>ticker = tk, shares = n_shares, avg_cost_jpy = avg_cost,
      current_price_local = 0, current_price_jpy = 0,
      exchange_rate = rate, current_value_jpy = 0,
      cost_basis_jpy = avg_cost * n_shares, pnl_amount = - (avg_cost * n_shares),
      pnl_percentage = - 100\<rparr>"

definition calculate_pnl :: "string \<Rightarrow> real \<Rightarrow> real \<Rightarrow> real \<Rightarrow> real \<Rightarrow> pnl_data" where
  "calculate_pnl tk n_shares avg_cost price_local rate =
     (case calculate_pnl_try tk n_shares avg_cost price_local rate of
        Inr result \<Rightarrow> result
      | Inl e \<Rightarrow> calculate_pnl_except tk n_shares avg_cost rate)"

section \<open>modules/pnl\_calculator.py: exchange rates\<close>

definition rate_mapping :: "(string \<times> string) list" where
  "rate_mapping =
     [(''USD'', ''USDJPY=X''), (''EUR'', ''EURJPY=X''), (''GBP'', ''GBPJPY=X''),
      (''AUD'', ''AUDJPY=X''), (''CAD'', ''CADJPY=X''), (''CHF'', ''CHFJPY=X'')]"

definition fallback_rates :: "(string \<times> real) list" where
  "fallback_rates =
     [(''USD'', 150), (''EUR'', 160), (''GBP'', 180), (''AUD'', 100), (''CAD'', 110),
      (''CHF'', 165), (''HKD'', 19), (''SGD'', 110), (''CNY'', 21), (''KRW'', 11 / 100)]"

text \<open>
  \<open>exchange_rates\<close> is a dict from pair symbol to rate. \<open>rate_symbol and rate_symbol in
  exchange_rates\<close> needs a symbol that is neither None nor the empty string.
\<close>

definition get_exchange_rate_for_currency :: "string \<Rightarrow> (string \<rightharpoonup> real) \<Rightarrow> real" where
  "get_exchange_rate_for_currency currency exchange_rates =
     (if currency = ''JPY'' then 1
      else
        (case (case map_of rate_mapping currency of
                 None \<Rightarrow> None
               | Some rate_symbol \<Rightarrow>
                   if rate_symbol \<noteq> [] then exchange_rates rate_symbol else None) of
           Some rate \<Rightarrow> rate
         | None \<Rightarrow>
             (case map_of fallback_rates currency of Some rate \<Rightarrow> rate | None \<Rightarrow> 1)))"

section \<open>modules/pnl\_calculator.py: the portfolio\<close>

text \<open>A row of the uploaded portfolio, with the columns the loop reads.\<close>

record portfolio_row =
  Ticker :: string
  Shares :: real
  AvgCostJPY :: real

text \<open>A row of the result: the dict of \<open>calculate_pnl\<close> with the key \<open>currency\<close> added.\<close>

record pnl_row = pnl_data +
  currency :: string

definition calculate_portfolio_pnl ::
  "portfolio_row list \<Rightarrow> (string \<rightharpoonup> real) \<Rightarrow> (string \<rightharpoonup> real) \<Rightarrow> (string \<rightharpoonup> string)
     \<Rightarrow> pnl_row dataframe" where
  "calculate_portfolio_pnl portfolio_df current_prices exchange_rates currency_mapping =
     DataFrame (map (\<lambda>row.
        let tk = Ticker row;
            price_local = (case current_prices tk of Some p \<Rightarrow> p | None \<Rightarrow> 0);
            cur = (case currency_mapping tk of Some c \<Rightarrow> c | None \<Rightarrow> ''USD'');
            rate = get_exchange_rate_for_currency cur exchange_rates;
            pnl = calculate_pnl tk (Shares row) (AvgCostJPY row) price_local rate
        in pnl_data.extend pnl (pnl_row.fields cur)) portfolio_df)"

section \<open>modules/pnl\_calculator.py: portfolio summary\<close>

text \<open>
  The summary dict, one field per key. The extremal amounts and percentages are what
  \<open>Series.max()\<close> and \<open>Series.min()\<close> return, NaN on a frame without rows.
\<close>

record portfolio_summary =
  total_positions :: nat
  total_cost_basis_jpy :: real
  total_current_value_jpy :: real
  total_pnl_amount_jpy :: real
  overall_pnl_percentage :: real
  win_rate :: real
  profitable_positions :: nat
  losing_positions :: nat
  max_gain_amount :: float64
  max_loss_amount :: float64
  max_gain_percentage :: float64
  max_loss_percentage :: float64
  max_gain_ticker :: string
  max_loss_ticker :: string
  average_position_size :: real

text \<open>
  The body of the \<open>try\<close> block of \<open>calculate_portfolio_summary\<close>. Its first statement
  selects the column \<open>cost_basis_jpy\<close>, which raises KeyError on a frame without columns.
  \<open>pnl_df.empty\<close> holds for a frame without rows.
\<close>

definition calculate_portfolio_summary_try ::
  "pnl_row dataframe \<Rightarrow> py_error + portfolio_summary" where
  "calculate_portfolio_summary_try pnl_df =
     (case pnl_df of
        NoColumns \<Rightarrow> Inl KeyError
      | Frame rows \<Rightarrow>
          (let total_cost_basis = sum_list (map cost_basis_jpy rows);
               total_current_value = sum_list (map current_value_jpy rows);
               total_pnl_amount = sum_list (map pnl_amount rows);
               overall =
                 (if total_cost_basis > 0 then (total_pnl_amount / total_cost_basis) * 100
                  else 0);
               profitable = length (filter (\<lambda>r. pnl_amount r > 0) rows);
               total = length rows;
               rate = (if total > 0 then (real profitable / real total) * 100 else 0)
           in Inr \<lparr>total_positions = total,
                   total_cost_basis_jpy = total_cost_basis,
                   total_current_value_jpy = total_current_value,
                   total_pnl_amount_jpy = total_pnl_amount,
                   overall_pnl_percentage = overall,
                   win_rate = rate,
                   profitable_positions = profitable,
                   losing_positions = total - profitable,
                   max_gain_amount = series_max (map pnl_amount rows),
                   max_loss_amount = series_min (map pnl_amount rows),
                   max_gain_percentage = series_max (map pnl_percentage rows),
                   max_loss_percentage = series_min (map pnl_percentage rows),
                   max_gain_ticker =
                     (if rows \<noteq> [] then ticker (rows ! idxmax (map pnl_amount rows)) else []),
                   max_loss_ticker =
                     (if rows \<noteq> [] then ticker (rows ! idxmin (map pnl_amount rows)) else []),
                   average_position_size =
                     (if total > 0 then total_cost_basis / real total else 0)\<rparr>))"

text \<open>
  \<open>calculate_portfolio_summary\<close>: the handler turns every exception of the body into the
  empty dict \<open>{}\<close>, which is \<open>None\<close> here.
\<close>

definition calculate_portfolio_summary :: "pnl_row dataframe \<Rightarrow> portfolio_summary option" where
  "calculate_portfolio_summary pnl_df =
     (case calculate_portfolio_summary_try pnl_df of
        Inr summary \<Rightarrow> Some summary
      | Inl e \<Rightarrow> None)"

section \<open>modules/country\_fetcher.py: regions\<close>

text \<open>
  The region names the classifier returns, in the order of the source:
  \<open>Japan\<close> is "Nihon" (U+65E5 U+672C), \<open>US\<close> is "Beikoku" (U+7C73 U+56FD), \<open>Europe\<close> is
  "Oushuu" (U+6B27 U+5DDE), \<open>Asia_Pacific\<close> is "Ajia Taiheiyou" (U+30A2 ...),
  \<open>North_America_Other\<close> is "Hokubei (sonota)" (U+5317 U+7C73 ...), and \<open>Other\<close> is
  "Sonota" (U+305D U+306E U+4ED6).
\<close>

datatype region = Japan | US | Europe | Asia_Pacific | North_America_Other | Other

text \<open>
  A string is the list of its code points, taken below 256. The white space that
  \<open>str.strip()\<close> removes is, among these, tab, line feed, vertical tab, form feed, carriage
  return, the separators 28 to 31, the space, next line (U+0085) and the no-break space
  (U+00A0). \<open>str.upper()\<close> is modelled on the ASCII letters. A character from 128 on is left
  as it is: Python maps it to a character outside ASCII again, or U+00DF to \<open>SS\<close>, which
  occurs in none of the country names below, so the classification is the same.
\<close>

definition upper_char :: "char \<Rightarrow> char" where
  "upper_char c =
     (if (97::nat) \<le> of_char c \<and> of_char c \<le> (122::nat)
      then char_of (of_char c - (32::nat)) else c)"

definition upper :: "string \<Rightarrow> string" where
  "upper s = map upper_char s"

definition is_space :: "char \<Rightarrow> bool" where
  "is_space c =
     ((of_char c :: nat) \<in> set [9, 10, 11, 12, 13, 28, 29, 30, 31, 32, 133, 160])"

definition strip :: "string \<Rightarrow> string" where
  "strip s = rev (dropWhile is_space (rev (dropWhile is_space s)))"

definition european_countries :: "string list" where
  "european_countries =
     [''GERMANY'', ''FRANCE'', ''UNITED KINGDOM'', ''UK'', ''GREAT BRITAIN'',
      ''ITALY'', ''SPAIN'', ''NETHERLANDS'', ''SWITZERLAND'', ''SWEDEN'',
      ''NORWAY'', ''DENMARK'', ''FINLAND'', ''BELGIUM'', ''AUSTRIA'',
      ''IRELAND'', ''PORTUGAL'', ''LUXEMBOURG'', ''GREECE'', ''POLAND'',
      ''CZECH REPUBLIC'', ''HUNGARY'', ''SLOVAKIA'', ''SLOVENIA'',
      ''CROATIA'', ''ROMANIA'', ''BULGARIA'', ''ESTONIA'', ''LATVIA'',
      ''LITHUANIA'', ''MALTA'', ''CYPRUS'']"

definition asia_pacific_countries :: "string list" where
  "asia_pacific_countries =
     [''CHINA'', ''SOUTH KOREA'', ''KOREA'', ''TAIWAN'', ''HONG KONG'',
      ''SINGAPORE'', ''MALAYSIA'', ''THAILAND'', ''INDONESIA'',
      ''PHILIPPINES'', ''VIETNAM'', ''INDIA'', ''AUSTRALIA'',
      ''NEW ZEALAND'']"

text \<open>\<open>not country\<close> holds for None and for the empty string.\<close>

definition classify_region_by_country :: "string option \<Rightarrow> region" where
  "classify_region_by_country country =
     (case country of
        None \<Rightarrow> Other
      | Some name \<Rightarrow>
          if name = [] then Other
          else
            (let c = strip (upper name) in
             if c \<in> set [''JAPAN''] then Japan
             else if c \<in> set [''UNITED STATES'', ''USA'', ''US''] then US
             else if c \<in> set european_countries then Europe
             else if c \<in> set asia_pacific_countries then Asia_Pacific
             else if c \<in> set [''CANADA''] then North_America_Other
             else Other))"

section \<open>modules/pnl\_calculator.py: allocation by region\<close>

text \<open>
  \<open>ticker_countries\<close> is None or a dict from ticker to a country name or None, held as an
  association list read by \<open>map_of\<close>. A dict is truthy when it has an entry, and
  \<open>sub in ticker\<close> on strings is containment as a contiguous substring.
\<close>

definition get_region_for_ticker ::
  "(string \<times> string option) list option \<Rightarrow> string \<Rightarrow> region" where
  "get_region_for_ticker ticker_countries tk =
     (case (case ticker_countries of
              None \<Rightarrow> None
            | Some d \<Rightarrow> if d \<noteq> [] then map_of d tk else None) of
        Some country \<Rightarrow> classify_region_by_country country
      | None \<Rightarrow>
          if sublist ''.T'' tk \<or> sublist ''.JP'' tk then Japan
          else if sublist ''.AS'' tk \<or> sublist ''.PA'' tk \<or> sublist ''.DE'' tk
                  \<or> sublist ''.MI'' tk \<or> sublist ''.L'' tk then Europe
          else if sublist ''.TO'' tk \<or> sublist ''.V'' tk then North_America_Other
          else if sublist ''.AX'' tk then Asia_Pacific
          else if sublist ''.HK'' tk then Asia_Pacific
          else US)"

text \<open>
  The frame after \<open>groupby('country').agg(...)\<close>: one row per region that occurs, with the
  sums of the three amounts and the number of tickers of the region.
\<close>

record region_agg =
  country :: region
  region_current_value_jpy :: real
  region_cost_basis_jpy :: real
  region_pnl_amount :: real
  position_count :: nat

text \<open>The returned frame: the aggregate with the two percentage columns.\<close>

record region_allocation = region_agg +
  allocation_percentage :: real
  region_pnl_percentage :: float64

text \<open>
  \<open>groupby\<close> sorts the groups by key. The keys are the region names, compared as Python
  strings by code point of their first characters: U+305D, U+30A2, U+5317, U+65E5, U+6B27,
  U+7C73.
\<close>

definition region_order :: "region list" where
  "region_order = [Other, Asia_Pacific, North_America_Other, Japan, Europe, US]"

definition groupby_country :: "(region \<times> pnl_row) list \<Rightarrow> region_agg list" where
  "groupby_country tagged =
     map (\<lambda>k.
        let members = map snd (filter (\<lambda>p. fst p = k) tagged)
        in \<lparr>country = k,
            region_current_value_jpy = sum_list (map current_value_jpy members),
            region_cost_basis_jpy = sum_list (map cost_basis_jpy members),
            region_pnl_amount = sum_list (map pnl_amount members),
            position_count = length members\<rparr>)
       (filter (\<lambda>k. k \<in> set (map fst tagged)) region_order)"

text \<open>
  The body of the \<open>try\<close> block of \<open>calculate_sector_allocation\<close>. Selecting the column
  \<open>ticker\<close> raises KeyError on a frame without columns. The allocation percentage is
  guarded by \<open>total_value > 0\<close>; the P&L percentage is a Series division followed by
  \<open>fillna(0)\<close>.
\<close>

definition calculate_sector_allocation_try ::
  "pnl_row dataframe \<Rightarrow> (string \<times> string option) list option
     \<Rightarrow> py_error + region_allocation dataframe" where
  "calculate_sector_allocation_try pnl_df ticker_countries =
     (case pnl_df of
        NoColumns \<Rightarrow> Inl KeyError
      | Frame rows \<Rightarrow>
          (let tagged = map (\<lambda>r. (get_region_for_ticker ticker_countries (ticker r), r)) rows;
               sector_allocation = groupby_country tagged;
               total_value = sum_list (map region_current_value_jpy sector_allocation)
           in Inr (Frame (map (\<lambda>g.
                region_agg.extend g
                  (region_allocation.fields
                     (if total_value > 0
                      then region_current_value_jpy g / total_value * 100 else 0)
                     (fillna 0
                        (series_mul
                           (series_div (region_pnl_amount g) (region_cost_basis_jpy g)) 100))))
                sector_allocation))))"

text \<open>The handler returns \<open>pd.DataFrame()\<close>, the frame without columns.\<close>

definition calculate_sector_allocation ::
  "pnl_row dataframe \<Rightarrow> (string \<times> string option) list option
     \<Rightarrow> region_allocation dataframe" where
  "calculate_sector_allocation pnl_df ticker_countries =
     (case calculate_sector_allocation_try pnl_df ticker_countries of
        Inr result \<Rightarrow> result
      | Inl e \<Rightarrow> NoColumns)"

section \<open>An example portfolio\<close>

text \<open>
  Concrete inputs for the closed theorems below: two positions listed in Tokyo and one
  in the United States, worth 1000000, 2000000 and 3000000 in the home currency (the
  region scenario of the specification). \<open>AAPL\<close> has no entry in the currency mapping.
\<close>

definition example_portfolio :: "portfolio_row list" where
  "example_portfolio =
     [\<lparr>Ticker = ''7203.T'', Shares = 100, AvgCostJPY = 8000\<rparr>,
      \<lparr>Ticker = ''6758.T'', Shares = 100, AvgCostJPY = 25000\<rparr>,
      \<lparr>Ticker = ''AAPL'', Shares = 100, AvgCostJPY = 15000\<rparr>]"

definition example_prices :: "string \<rightharpoonup> real" where
  "example_prices = map_of [(''7203.T'', 10000), (''6758.T'', 20000), (''AAPL'', 200)]"

definition example_rates :: "string \<rightharpoonup> real" where
  "example_rates = map_of [(''USDJPY=X'', 150)]"

definition example_currencies :: "string \<rightharpoonup> string" where
  "example_currencies = map_of [(''7203.T'', ''JPY''), (''6758.T'', ''JPY'')]"

definition example_countries :: "(string \<times> string option) list option" where
  "example_countries =
     Some [(''7203.T'', Some ''Japan''), (''6758.T'', Some ''Japan''),
           (''AAPL'', Some ''United States'')]"

text \<open>The rows that \<open>calculate_portfolio_pnl\<close> computes for the example, written out.\<close>

definition example_rows :: "pnl_row list" where
  "example_rows =
     [\<lparr>ticker = ''7203.T'', shares = 100, avg_cost_jpy = 8000,
       current_price_local = 10000, current_price_jpy = 10000, exchange_rate = 1,
       current_value_jpy = 1000000, cost_basis_jpy = 800000, pnl_amount = 200000,
       pnl_percentage = 25, currency = ''JPY''\<rparr>,
      \<lparr>ticker = ''6758.T'', shares = 100, avg_cost_jpy = 25000,
       current_price_local = 20000, current_price_jpy = 20000, exchange_rate = 1,
       current_value_jpy = 2000000, cost_basis_jpy = 2500000, pnl_amount = - 500000,
       pnl_percentage = - 20, currency = ''JPY''\<rparr>,
      \<lparr>ticker = ''AAPL'', shares = 100, avg_cost_jpy = 15000,
       current_price_local = 200, current_price_jpy = 30000, exchange_rate = 150,
       current_value_jpy = 3000000, cost_basis_jpy = 1500000, pnl_amount = 1500000,
       pnl_percentage = 100, currency = ''USD''\<rparr>]"

section \<open>The rate lookup in the words of the specification\<close>

text \<open>
  The specification describes the lookup without the table \<open>rate_mapping\<close>: every foreign
  currency has a pair symbol (the home-currency value of one unit of it), the table is
  asked for that symbol, and the fallback rates apply when the table does not hold it.
  The pair symbols of the source are the currency code followed by \<open>JPY=X\<close>. This second
  definition is compared with \<open>get_exchange_rate_for_currency\<close> below.
\<close>

definition pair_symbol :: "string \<Rightarrow> string" where
  "pair_symbol cur = cur @ ''JPY=X''"

definition spec_rate_for :: "string \<Rightarrow> (string \<rightharpoonup> real) \<Rightarrow> real" where
  "spec_rate_for cur fx_table =
     (if cur = ''JPY'' then 1
      else (case fx_table (pair_symbol cur) of
              Some rate \<Rightarrow> rate
            | None \<Rightarrow> (case map_of fallback_rates cur of Some rate \<Rightarrow> rate | None \<Rightarrow> 1)))"

section \<open>Single position: zero price and the percentage\<close>

lemma calculate_pnl_try_returns: "\<exists>r. calculate_pnl_try tk n a p rate = Inr r"
  by (simp add: calculate_pnl_try_def Let_def)

text \<open>
  C1, as amended. With a local price of zero \<open>calculate_pnl\<close> returns from its \<open>try\<close>
  block: the price and the value in the home currency are 0, the cost basis is
  \<open>avg_cost * shares\<close>, the P&L amount is minus the cost basis, and the P&L percentage is
  \<open>-100\<close> when the cost basis is positive and \<open>0\<close> otherwise (so \<open>0\<close>, not \<open>-100\<close>, for an
  average cost of zero).
\<close>

theorem calculate_pnl_zero_price:
  "calculate_pnl_try tk n a 0 rate = Inr (calculate_pnl tk n a 0 rate)
   \<and> current_price_jpy (calculate_pnl tk n a 0 rate) = 0
   \<and> current_value_jpy (calculate_pnl tk n a 0 rate) = 0
   \<and> cost_basis_jpy (calculate_pnl tk n a 0 rate) = a * n
   \<and> pnl_amount (calculate_pnl tk n a 0 rate) = - cost_basis_jpy (calculate_pnl tk n a 0 rate)
   \<and> pnl_percentage (calculate_pnl tk n a 0 rate) = (if a * n > 0 then - 100 else 0)"
  by (simp add: calculate_pnl_def calculate_pnl_try_def Let_def)

text \<open>
  C1 as stated fails: 100 shares with an average cost of 0 and a price of 0 give a P&L
  percentage of 0, where the claim has \<open>-100\<close>.
\<close>

theorem calculate_pnl_zero_price_counterexample:
  "pnl_percentage (calculate_pnl ''AAPL'' 100 0 0 150) = 0
   \<and> pnl_percentage (calculate_pnl ''AAPL'' 100 0 0 150) \<noteq> - 100"
  by (simp add: calculate_pnl_def calculate_pnl_try_def Let_def)

text \<open>
  C7. For every result \<open>r\<close> of \<open>calculate_pnl\<close>: a positive cost basis gives
  \<open>pnl_percentage r = pnl_amount r / cost_basis_jpy r * 100\<close>, and a cost basis of zero
  gives \<open>pnl_percentage r = 0\<close>.
\<close>

theorem calculate_pnl_percentage:
  assumes "r = calculate_pnl tk n a p rate"
  shows "(0 < cost_basis_jpy r \<longrightarrow> pnl_percentage r = pnl_amount r / cost_basis_jpy r * 100)
       \<and> (cost_basis_jpy r = 0 \<longrightarrow> pnl_percentage r = 0)"
  using assms by (simp add: calculate_pnl_def calculate_pnl_try_def Let_def)

text \<open>
  The example of the specification (100 shares at 15000, price 190, rate 150, hence 90
  percent) and a position with an average cost of zero.
\<close>

theorem calculate_pnl_percentage_witness:
  "0 < cost_basis_jpy (calculate_pnl ''AAPL'' 100 15000 190 150)
   \<and> pnl_percentage (calculate_pnl ''AAPL'' 100 15000 190 150)
       = pnl_amount (calculate_pnl ''AAPL'' 100 15000 190 150)
           / cost_basis_jpy (calculate_pnl ''AAPL'' 100 15000 190 150) * 100
   \<and> pnl_percentage (calculate_pnl ''AAPL'' 100 15000 190 150) = 90
   \<and> cost_basis_jpy (calculate_pnl ''GIFT'' 100 0 190 150) = 0
   \<and> pnl_percentage (calculate_pnl ''GIFT'' 100 0 190 150) = 0"
proof -
  have pos: "0 < cost_basis_jpy (calculate_pnl ''AAPL'' 100 15000 190 150)"
    by (simp add: calculate_pnl_def calculate_pnl_try_def Let_def)
  have zero: "cost_basis_jpy (calculate_pnl ''GIFT'' 100 0 190 150) = 0"
    by (simp add: calculate_pnl_def calculate_pnl_try_def Let_def)
  have ninety: "pnl_percentage (calculate_pnl ''AAPL'' 100 15000 190 150) = 90"
    by (simp add: calculate_pnl_def calculate_pnl_try_def Let_def)
  from calculate_pnl_percentage [OF refl, of "''AAPL''" 100 15000 190 150] pos
  have a: "pnl_percentage (calculate_pnl ''AAPL'' 100 15000 190 150)
       = pnl_amount (calculate_pnl ''AAPL'' 100 15000 190 150)
           / cost_basis_jpy (calculate_pnl ''AAPL'' 100 15000 190 150) * 100"
    by blast
  from calculate_pnl_percentage [OF refl, of "''GIFT''" 100 0 190 150] zero
  have b: "pnl_percentage (calculate_pnl ''GIFT'' 100 0 190 150) = 0"
    by blast
  from pos zero ninety a b show ?thesis by blast
qed

section \<open>Exchange rates\<close>

text \<open>
  C4, as amended. The rate of JPY is 1. The table is asked only for the six currencies of
  \<open>rate_mapping\<close> (USD, EUR, GBP, AUD, CAD, CHF), under the symbol \<open>pair_symbol\<close>; its rate
  is returned when it holds that symbol. In every other case the fallback rate of the
  currency is returned, which is what HKD, SGD, CNY and KRW always get, and 1 for a
  currency without a fallback rate.
\<close>

theorem get_exchange_rate_for_currency_cases:
  "get_exchange_rate_for_currency cur fx =
     (if cur = ''JPY'' then 1
      else if cur \<in> set [''USD'', ''EUR'', ''GBP'', ''AUD'', ''CAD'', ''CHF'']
              \<and> fx (pair_symbol cur) \<noteq> None
           then the (fx (pair_symbol cur))
      else if cur = ''USD'' then 150
      else if cur = ''EUR'' then 160
      else if cur = ''GBP'' then 180
      else if cur = ''AUD'' then 100
      else if cur = ''CAD'' then 110
      else if cur = ''CHF'' then 165
      else if cur = ''HKD'' then 19
      else if cur = ''SGD'' then 110
      else if cur = ''CNY'' then 21
      else if cur = ''KRW'' then 11 / 100
      else 1)"
  by (auto simp: get_exchange_rate_for_currency_def rate_mapping_def fallback_rates_def
      pair_symbol_def split: option.splits)

text \<open>
  C4 as stated fails: with a table that holds a rate of 20 under \<open>HKDJPY=X\<close>, the source
  returns the fallback 19 for HKD, where the lookup of the specification returns 20.
\<close>

theorem get_exchange_rate_unmapped_counterexample:
  "get_exchange_rate_for_currency ''HKD'' (map_of [(''HKDJPY=X'', 20)]) = 19
   \<and> spec_rate_for ''HKD'' (map_of [(''HKDJPY=X'', 20)]) = 20
   \<and> get_exchange_rate_for_currency ''HKD'' (map_of [(''HKDJPY=X'', 20)])
       \<noteq> spec_rate_for ''HKD'' (map_of [(''HKDJPY=X'', 20)])"
  by (simp add: get_exchange_rate_for_currency_def rate_mapping_def fallback_rates_def
      spec_rate_for_def pair_symbol_def)

section \<open>The portfolio: default currency\<close>

lemma example_rows_computed:
  "calculate_portfolio_pnl example_portfolio example_prices example_rates example_currencies
     = Frame example_rows"
  by (simp add: calculate_portfolio_pnl_def example_portfolio_def example_prices_def
      example_rates_def example_currencies_def example_rows_def DataFrame_def Let_def
      get_exchange_rate_for_currency_def rate_mapping_def fallback_rates_def
      calculate_pnl_def calculate_pnl_try_def pnl_data.defs pnl_row.defs)

lemma usd_exchange_rate:
  "get_exchange_rate_for_currency ''USD'' exchange_rates
     = (case exchange_rates ''USDJPY=X'' of Some rate \<Rightarrow> rate | None \<Rightarrow> 150)"
  by (simp add: get_exchange_rate_for_currency_def rate_mapping_def fallback_rates_def
      split: option.splits)

lemma pnl_row_extend_fields:
  "currency (pnl_data.extend d (pnl_row.fields c)) = c"
  "ticker (pnl_data.extend d (pnl_row.fields c)) = ticker d"
  "exchange_rate (pnl_data.extend d (pnl_row.fields c)) = exchange_rate d"
  "current_price_local (pnl_data.extend d (pnl_row.fields c)) = current_price_local d"
  "current_price_jpy (pnl_data.extend d (pnl_row.fields c)) = current_price_jpy d"
  by (simp_all add: pnl_data.defs pnl_row.defs)

text \<open>
  C9. A row of the portfolio whose ticker has no entry in \<open>currency_mapping\<close> is computed
  as a USD position: the result row at the same index is the result of \<open>calculate_pnl\<close>
  for the row's shares and average cost, at the quoted price (0 without a quote) and at the
  rate \<open>get_exchange_rate_for_currency\<close> returns for \<open>USD\<close>, with the currency \<open>USD\<close>
  added. That rate is the rate of the table under \<open>USDJPY=X\<close>, or 150 when the table has
  no such entry. The whole frame is the one computed from the mapping with the ticker
  entered as \<open>USD\<close>.
\<close>

theorem calculate_portfolio_pnl_default_currency:
  assumes "i < length portfolio_df"
    and "currency_mapping (Ticker (portfolio_df ! i)) = None"
  shows "\<exists>rows. calculate_portfolio_pnl portfolio_df current_prices exchange_rates currency_mapping
              = Frame rows
           \<and> length rows = length portfolio_df
           \<and> rows ! i =
               pnl_data.extend
                 (calculate_pnl (Ticker (portfolio_df ! i)) (Shares (portfolio_df ! i))
                    (AvgCostJPY (portfolio_df ! i))
                    (case current_prices (Ticker (portfolio_df ! i)) of
                       Some p \<Rightarrow> p | None \<Rightarrow> 0)
                    (get_exchange_rate_for_currency ''USD'' exchange_rates))
                 (pnl_row.fields ''USD'')
           \<and> get_exchange_rate_for_currency ''USD'' exchange_rates
               = (case exchange_rates ''USDJPY=X'' of Some rate \<Rightarrow> rate | None \<Rightarrow> 150)
           \<and> ticker (rows ! i) = Ticker (portfolio_df ! i)
           \<and> currency (rows ! i) = ''USD''
           \<and> exchange_rate (rows ! i) = get_exchange_rate_for_currency ''USD'' exchange_rates
           \<and> exchange_rate (rows ! i)
               = (case exchange_rates ''USDJPY=X'' of Some rate \<Rightarrow> rate | None \<Rightarrow> 150)
           \<and> current_price_jpy (rows ! i) = current_price_local (rows ! i) * exchange_rate (rows ! i)
           \<and> calculate_portfolio_pnl portfolio_df current_prices exchange_rates
                 (currency_mapping(Ticker (portfolio_df ! i) \<mapsto> ''USD''))
               = Frame rows"
proof -
  from assms(1) have ne: "portfolio_df \<noteq> []" by auto
  let ?f = "\<lambda>cm row.
        let tk = Ticker row;
            price_local = (case current_prices tk of Some p \<Rightarrow> p | None \<Rightarrow> 0);
            cur = (case cm tk of Some c \<Rightarrow> c | None \<Rightarrow> ''USD'');
            rate = get_exchange_rate_for_currency cur exchange_rates;
            pnl = calculate_pnl tk (Shares row) (AvgCostJPY row) price_local rate
        in pnl_data.extend pnl (pnl_row.fields cur)"
  let ?rows = "map (?f currency_mapping) portfolio_df"
  have frame: "calculate_portfolio_pnl portfolio_df current_prices exchange_rates currency_mapping
      = Frame ?rows"
    using ne by (simp add: calculate_portfolio_pnl_def DataFrame_def)
  have same: "?f (currency_mapping(Ticker (portfolio_df ! i) \<mapsto> ''USD'')) row
      = ?f currency_mapping row" for row
    using assms(2) by (simp add: Let_def)
  have frame': "calculate_portfolio_pnl portfolio_df current_prices exchange_rates
                 (currency_mapping(Ticker (portfolio_df ! i) \<mapsto> ''USD'')) = Frame ?rows"
    using ne unfolding calculate_portfolio_pnl_def DataFrame_def same by simp
  have row: "?rows ! i =
               pnl_data.extend
                 (calculate_pnl (Ticker (portfolio_df ! i)) (Shares (portfolio_df ! i))
                    (AvgCostJPY (portfolio_df ! i))
                    (case current_prices (Ticker (portfolio_df ! i)) of
                       Some p \<Rightarrow> p | None \<Rightarrow> 0)
                    (get_exchange_rate_for_currency ''USD'' exchange_rates))
                 (pnl_row.fields ''USD'')"
    using assms by (simp add: Let_def)
  have fields: "ticker (?rows ! i) = Ticker (portfolio_df ! i)"
    "currency (?rows ! i) = ''USD''"
    "exchange_rate (?rows ! i) = get_exchange_rate_for_currency ''USD'' exchange_rates"
    "current_price_jpy (?rows ! i) = current_price_local (?rows ! i) * exchange_rate (?rows ! i)"
    unfolding row
    by (simp_all add: pnl_row_extend_fields calculate_pnl_def calculate_pnl_try_def Let_def)
  show ?thesis
    using frame frame' row fields usd_exchange_rate [of exchange_rates]
    by (intro exI [of _ ?rows]) (simp only: length_map simp_thms)
qed

text \<open>
  The third row of the example, \<open>AAPL\<close>, has no currency: with a table rate of 155 the
  position is valued at 200 * 155 a share, and with an empty table at the fallback 150.
\<close>

theorem calculate_portfolio_pnl_default_currency_witness:
  "2 < length example_portfolio
   \<and> example_currencies (Ticker (example_portfolio ! 2)) = None
   \<and> (\<exists>rows. calculate_portfolio_pnl example_portfolio example_prices
                 (map_of [(''USDJPY=X'', 155)]) example_currencies = Frame rows
          \<and> rows ! 2 =
              \<lparr>ticker = ''AAPL'', shares = 100, avg_cost_jpy = 15000,
               current_price_local = 200, current_price_jpy = 31000, exchange_rate = 155,
               current_value_jpy = 3100000, cost_basis_jpy = 1500000, pnl_amount = 1600000,
               pnl_percentage = 320 / 3, currency = ''USD''\<rparr>
          \<and> calculate_portfolio_pnl example_portfolio example_prices
                 (map_of [(''USDJPY=X'', 155)]) (example_currencies(''AAPL'' \<mapsto> ''USD''))
              = Frame rows)
   \<and> (\<exists>rows. calculate_portfolio_pnl example_portfolio example_prices
                 Map.empty example_currencies = Frame rows
          \<and> rows ! 2 =
              \<lparr>ticker = ''AAPL'', shares = 100, avg_cost_jpy = 15000,
               current_price_local = 200, current_price_jpy = 30000, exchange_rate = 150,
               current_value_jpy = 3000000, cost_basis_jpy = 1500000, pnl_amount = 1500000,
               pnl_percentage = 100, currency = ''USD''\<rparr>)"
proof -
  have len: "2 < length example_portfolio" by (simp add: example_portfolio_def)
  have absent: "example_currencies (Ticker (example_portfolio ! 2)) = None"
    by (simp add: example_portfolio_def example_currencies_def)
  have row: "Ticker (example_portfolio ! 2) = ''AAPL''" "Shares (example_portfolio ! 2) = 100"
    "AvgCostJPY (example_portfolio ! 2) = 15000"
    by (simp_all add: example_portfolio_def)
  have price: "(case example_prices ''AAPL'' of Some p \<Rightarrow> p | None \<Rightarrow> 0) = 200"
    by (simp add: example_prices_def)
  have at155: "pnl_data.extend
       (calculate_pnl ''AAPL'' 100 15000 200
          (get_exchange_rate_for_currency ''USD'' (map_of [(''USDJPY=X'', 155)])))
       (pnl_row.fields ''USD'')
     = \<lparr>ticker = ''AAPL'', shares = 100, avg_cost_jpy = 15000,
        current_price_local = 200, current_price_jpy = 31000, exchange_rate = 155,
        current_value_jpy = 3100000, cost_basis_jpy = 1500000, pnl_amount = 1600000,
        pnl_percentage = 320 / 3, currency = ''USD''\<rparr>"
    by (simp add: get_exchange_rate_for_currency_def rate_mapping_def fallback_rates_def
        calculate_pnl_def calculate_pnl_try_def Let_def pnl_data.defs pnl_row.defs)
  have at150: "pnl_data.extend
       (calculate_pnl ''AAPL'' 100 15000 200
          (get_exchange_rate_for_currency ''USD'' Map.empty))
       (pnl_row.fields ''USD'')
     = \<lparr>ticker = ''AAPL'', shares = 100, avg_cost_jpy = 15000,
        current_price_local = 200, current_price_jpy = 30000, exchange_rate = 150,
        current_value_jpy = 3000000, cost_basis_jpy = 1500000, pnl_amount = 1500000,
        pnl_percentage = 100, currency = ''USD''\<rparr>"
    by (simp add: get_exchange_rate_for_currency_def rate_mapping_def fallback_rates_def
        calculate_pnl_def calculate_pnl_try_def Let_def pnl_data.defs pnl_row.defs)
  from calculate_portfolio_pnl_default_currency
    [where i = 2 and portfolio_df = example_portfolio and currency_mapping = example_currencies
       and current_prices = example_prices and exchange_rates = "map_of [(''USDJPY=X'', 155)]",
     OF len absent]
  obtain rows where "calculate_portfolio_pnl example_portfolio example_prices
                 (map_of [(''USDJPY=X'', 155)]) example_currencies = Frame rows"
    and "rows ! 2 =
              \<lparr>ticker = ''AAPL'', shares = 100, avg_cost_jpy = 15000,
               current_price_local = 200, current_price_jpy = 31000, exchange_rate = 155,
               current_value_jpy = 3100000, cost_basis_jpy = 1500000, pnl_amount = 1600000,
               pnl_percentage = 320 / 3, currency = ''USD''\<rparr>"
    and "calculate_portfolio_pnl example_portfolio example_prices
                 (map_of [(''USDJPY=X'', 155)]) (example_currencies(''AAPL'' \<mapsto> ''USD''))
              = Frame rows"
    unfolding row price at155 by blast
  then have a: "\<exists>rows. calculate_portfolio_pnl example_portfolio example_prices
                 (map_of [(''USDJPY=X'', 155)]) example_currencies = Frame rows
          \<and> rows ! 2 =
              \<lparr>ticker = ''AAPL'', shares = 100, avg_cost_jpy = 15000,
               current_price_local = 200, current_price_jpy = 31000, exchange_rate = 155,
               current_value_jpy = 3100000, cost_basis_jpy = 1500000, pnl_amount = 1600000,
               pnl_percentage = 320 / 3, currency = ''USD''\<rparr>
          \<and> calculate_portfolio_pnl example_portfolio example_prices
                 (map_of [(''USDJPY=X'', 155)]) (example_currencies(''AAPL'' \<mapsto> ''USD''))
              = Frame rows"
    by (intro exI [of _ rows] conjI)
  from calculate_portfolio_pnl_default_currency
    [where i = 2 and portfolio_df = example_portfolio and currency_mapping = example_currencies
       and current_prices = example_prices and exchange_rates = Map.empty,
     OF len absent]
  obtain rows' where "calculate_portfolio_pnl example_portfolio example_prices
                 Map.empty example_currencies = Frame rows'"
    and "rows' ! 2 =
              \<lparr>ticker = ''AAPL'', shares = 100, avg_cost_jpy = 15000,
               current_price_local = 200, current_price_jpy = 30000, exchange_rate = 150,
               current_value_jpy = 3000000, cost_basis_jpy = 1500000, pnl_amount = 1500000,
               pnl_percentage = 100, currency = ''USD''\<rparr>"
    unfolding row price at150 by blast
  then have b: "\<exists>rows. calculate_portfolio_pnl example_portfolio example_prices
                 Map.empty example_currencies = Frame rows
          \<and> rows ! 2 =
              \<lparr>ticker = ''AAPL'', shares = 100, avg_cost_jpy = 15000,
               current_price_local = 200, current_price_jpy = 30000, exchange_rate = 150,
               current_value_jpy = 3000000, cost_basis_jpy = 1500000, pnl_amount = 1500000,
               pnl_percentage = 100, currency = ''USD''\<rparr>"
    by (intro exI [of _ rows'] conjI)
  from len absent a b show ?thesis by (intro conjI)
qed

section \<open>Portfolio summary\<close>

text \<open>
  C6. For a frame built from a non-empty list of position results,
  \<open>calculate_portfolio_summary\<close> returns a summary whose total P&L amount is the sum of the
  P&L amounts of the rows, and whose win rate lies between 0 and 100.
\<close>

theorem calculate_portfolio_summary_invariants:
  assumes "rows \<noteq> []"
  shows "\<exists>s. calculate_portfolio_summary (DataFrame rows) = Some s
           \<and> total_pnl_amount_jpy s = sum_list (map pnl_amount rows)
           \<and> 0 \<le> win_rate s \<and> win_rate s \<le> 100"
proof -
  let ?p = "length (filter (\<lambda>r. pnl_amount r > 0) rows)"
  let ?t = "length rows"
  have t: "0 < ?t" using assms by simp
  have le: "?p \<le> ?t" by (rule length_filter_le)
  have hi: "real ?p / real ?t * 100 \<le> 100" using t le by (simp add: field_simps)
  have lo: "0 \<le> real ?p / real ?t * 100" by simp
  show ?thesis
    using assms t hi lo
    by (simp add: calculate_portfolio_summary_def calculate_portfolio_summary_try_def
        DataFrame_def Let_def)
qed

text \<open>The example rows: a total P&L of 200000 - 500000 + 1500000.\<close>

theorem calculate_portfolio_summary_invariants_witness:
  "example_rows \<noteq> []
   \<and> (\<exists>s. calculate_portfolio_summary (DataFrame example_rows) = Some s
          \<and> total_pnl_amount_jpy s = 1200000
          \<and> 0 \<le> win_rate s \<and> win_rate s \<le> 100)"
proof -
  have ne: "example_rows \<noteq> []" by (simp add: example_rows_def)
  have total: "sum_list (map pnl_amount example_rows) = 1200000"
    by (simp add: example_rows_def)
  from calculate_portfolio_summary_invariants [OF ne] total
  show ?thesis using ne by simp
qed

text \<open>
  C8. On empty input \<open>calculate_portfolio_summary\<close> returns and does not raise. The frame
  built from an empty list has no columns: the body raises KeyError, the handler catches
  it, and the empty dict is returned. A frame with the columns and no row gives the
  summary with zero counts, totals, percentages and average, empty tickers, and NaN for
  the four extremal values.
\<close>

theorem calculate_portfolio_summary_empty:
  "calculate_portfolio_summary_try (DataFrame []) = Inl KeyError
   \<and> calculate_portfolio_summary (DataFrame []) = None
   \<and> calculate_portfolio_summary (Frame []) =
       Some \<lparr>total_positions = 0, total_cost_basis_jpy = 0, total_current_value_jpy = 0,
             total_pnl_amount_jpy = 0, overall_pnl_percentage = 0, win_rate = 0,
             profitable_positions = 0, losing_positions = 0,
             max_gain_amount = NaN, max_loss_amount = NaN,
             max_gain_percentage = NaN, max_loss_percentage = NaN,
             max_gain_ticker = [], max_loss_ticker = [],
             average_position_size = 0\<rparr>"
  by (simp add: calculate_portfolio_summary_def calculate_portfolio_summary_try_def
      DataFrame_def series_max_def series_min_def)

section \<open>Regions of tickers\<close>

lemma dot_TO_contains_dot_T:
  assumes "suffix ''.TO'' tk"
  shows "sublist ''.T'' tk"
proof -
  from assms obtain pre where "tk = pre @ ''.TO''" by (auto simp: suffix_def)
  then have "tk = pre @ ''.T'' @ ''O''" by simp
  then show ?thesis unfolding sublist_def by blast
qed

text \<open>
  Without country data, every ticker that ends in \<open>.TO\<close> contains \<open>.T\<close> and is taken by
  the first test of the fallback: the test for \<open>.TO\<close> is never reached by such a ticker.
\<close>

lemma get_region_for_ticker_dot_TO:
  "suffix ''.TO'' tk \<Longrightarrow> get_region_for_ticker None tk = Japan"
  by (simp add: get_region_for_ticker_def dot_TO_contains_dot_T)

text \<open>
  C3. The claim has every ticker ending in \<open>.TO\<close> in the region North America (other).
  The source puts the Toronto ticker \<open>RY.TO\<close>, for which no country data is given, in
  the region Japan.
\<close>

theorem get_region_for_ticker_toronto:
  "get_region_for_ticker None ''RY.TO'' = Japan
   \<and> get_region_for_ticker None ''RY.TO'' \<noteq> North_America_Other"
  by (simp add: get_region_for_ticker_def sublist_code)

text \<open>
  C10. A ticker that is a key of \<open>ticker_countries\<close> with the value None gets the region
  that \<open>classify_region_by_country\<close> gives for None, which is \<open>Other\<close>. In general a ticker
  that is a key gets the region of its country value, whatever its suffix; the result
  of the suffix fallback (the region computed without any mapping) is returned only for a
  ticker that is not a key, which includes every ticker when the mapping is empty.
\<close>

theorem get_region_for_ticker_present:
  "(map_of d tk = Some None \<longrightarrow>
      get_region_for_ticker (Some d) tk = classify_region_by_country None
      \<and> get_region_for_ticker (Some d) tk = Other)
   \<and> get_region_for_ticker (Some d) tk =
       (case map_of d tk of
          Some c \<Rightarrow> classify_region_by_country c
        | None \<Rightarrow> get_region_for_ticker None tk)"
  by (auto simp: get_region_for_ticker_def classify_region_by_country_def split: option.splits)

text \<open>
  The Tokyo ticker \<open>7203.T\<close> is \<open>Other\<close> when the mapping holds it with None, and
  \<open>Japan\<close> by its suffix when there is no mapping or the mapping does not hold it.
\<close>

theorem get_region_for_ticker_present_witness:
  "map_of [(''7203.T'', None :: string option)] ''7203.T'' = Some None
   \<and> get_region_for_ticker (Some [(''7203.T'', None)]) ''7203.T'' = Other
   \<and> get_region_for_ticker None ''7203.T'' = Japan
   \<and> get_region_for_ticker (Some [(''AAPL'', None)]) ''7203.T'' = Japan"
proof -
  have present: "map_of [(''7203.T'', None :: string option)] ''7203.T'' = Some None"
    by simp
  have absent: "map_of [(''AAPL'', None :: string option)] ''7203.T'' = None"
    by simp
  have fallback: "get_region_for_ticker None ''7203.T'' = Japan"
    by (simp add: get_region_for_ticker_def sublist_code)
  from get_region_for_ticker_present [of "[(''7203.T'', None)]" "''7203.T''"] present
  have a: "get_region_for_ticker (Some [(''7203.T'', None)]) ''7203.T'' = Other"
    by blast
  from get_region_for_ticker_present [of "[(''AAPL'', None)]" "''7203.T''"] absent fallback
  have b: "get_region_for_ticker (Some [(''AAPL'', None)]) ''7203.T'' = Japan"
    by simp
  from present a fallback b show ?thesis by blast
qed

section \<open>Allocation by region\<close>

subsection \<open>The groups partition the rows\<close>

lemma sum_list_filter_zero:
  "(\<And>k. k \<in> set ks \<Longrightarrow> \<not> P k \<Longrightarrow> h k = (0::real))
   \<Longrightarrow> sum_list (map h (filter P ks)) = sum_list (map h ks)"
  by (induction ks) auto

lemma sum_by_region:
  "(\<Sum>k\<leftarrow>region_order. sum_list (map f (map snd (filter (\<lambda>p. fst p = k) tagged))))
     = sum_list (map f (map snd tagged))"
  for f :: "pnl_row \<Rightarrow> real"
proof (induction tagged)
  case Nil
  show ?case by (simp add: region_order_def)
next
  case (Cons p ps)
  then show ?case
    by (cases "fst p") (simp_all add: region_order_def)
qed

lemma absent_region_empty:
  "k \<notin> set (map fst tagged) \<Longrightarrow> filter (\<lambda>p. fst p = k) tagged = []"
  by (induction tagged) auto

lemma groupby_country_total:
  "sum_list (map region_current_value_jpy (groupby_country tagged))
     = sum_list (map current_value_jpy (map snd tagged))"
proof -
  let ?h = "\<lambda>k. sum_list (map current_value_jpy (map snd (filter (\<lambda>p. fst p = k) tagged)))"
  have "sum_list (map region_current_value_jpy (groupby_country tagged))
      = sum_list (map ?h (filter (\<lambda>k. k \<in> set (map fst tagged)) region_order))"
    by (simp add: groupby_country_def Let_def comp_def)
  also have "\<dots> = sum_list (map ?h region_order)"
    by (rule sum_list_filter_zero) (simp add: absent_region_empty)
  also have "\<dots> = sum_list (map current_value_jpy (map snd tagged))"
    by (rule sum_by_region)
  finally show ?thesis .
qed

lemma region_fields_extend:
  "allocation_percentage (region_agg.extend g (region_allocation.fields a b)) = a"
  "region_pnl_percentage (region_agg.extend g (region_allocation.fields a b)) = b"
  "region_pnl_amount (region_agg.extend g (region_allocation.fields a b)) = region_pnl_amount g"
  "region_cost_basis_jpy (region_agg.extend g (region_allocation.fields a b))
     = region_cost_basis_jpy g"
  by (simp_all add: region_agg.defs region_allocation.defs)

lemma sum_list_scaled:
  "sum_list (map (\<lambda>g. v g / t * c) gs) = sum_list (map v gs) / t * (c::real)"
  by (induction gs) (simp_all add: add_divide_distrib distrib_right)

subsection \<open>The allocation percentages\<close>

lemma sector_allocation_sum:
  assumes "0 < sum_list (map current_value_jpy rows)"
  shows "\<exists>ras. calculate_sector_allocation (Frame rows) tc = Frame ras
           \<and> sum_list (map allocation_percentage ras) = 100"
proof -
  let ?tagged = "map (\<lambda>r. (get_region_for_ticker tc (ticker r), r)) rows"
  let ?gs = "groupby_country ?tagged"
  let ?total = "sum_list (map region_current_value_jpy ?gs)"
  have total: "?total = sum_list (map current_value_jpy rows)"
    by (simp add: groupby_country_total comp_def)
  then have pos: "0 < ?total" using assms by simp
  have "sum_list (map (\<lambda>g. region_current_value_jpy g / ?total * 100) ?gs)
      = ?total / ?total * 100"
    by (rule sum_list_scaled)
  then have hundred:
    "sum_list (map (\<lambda>g. region_current_value_jpy g / ?total * 100) ?gs) = 100"
    using pos by simp
  show ?thesis
    using pos hundred
    by (simp add: calculate_sector_allocation_def calculate_sector_allocation_try_def Let_def
        comp_def region_fields_extend)
qed

lemma classify_japan: "classify_region_by_country (Some ''Japan'') = Japan"
  by code_simp

lemma classify_us: "classify_region_by_country (Some ''United States'') = US"
  by code_simp

text \<open>White space around the name is stripped, the no-break space included.\<close>

lemma classify_japan_padded:
  "classify_region_by_country (Some ('' japan'' @ [char_of (160::nat)])) = Japan"
  by code_simp

text \<open>
  The region scenario of the specification: the two Japanese positions and the US position
  of the example get 50 percent each.
\<close>

lemma example_allocation:
  "calculate_sector_allocation (DataFrame example_rows) example_countries =
     Frame [\<lparr>country = Japan, region_current_value_jpy = 3000000,
              region_cost_basis_jpy = 3300000, region_pnl_amount = - 300000,
              position_count = 2, allocation_percentage = 50,
              region_pnl_percentage = Finite (- (100 / 11))\<rparr>,
            \<lparr>country = US, region_current_value_jpy = 3000000,
              region_cost_basis_jpy = 1500000, region_pnl_amount = 1500000,
              position_count = 1, allocation_percentage = 50,
              region_pnl_percentage = Finite 100\<rparr>]"
  by (simp add: calculate_sector_allocation_def calculate_sector_allocation_try_def
      DataFrame_def Let_def example_rows_def example_countries_def get_region_for_ticker_def
      classify_japan classify_us groupby_country_def region_order_def series_div_def
      region_agg.defs region_allocation.defs)

text \<open>
  C5. For a frame built from a non-empty list of position results whose current values
  sum to a positive total, \<open>calculate_sector_allocation\<close> returns a frame of regions whose
  allocation percentages sum to 100, hence within \<open>1e-6\<close> of 100. (Over the reals the sum
  is exact; the rounding of floats is not modelled.)
\<close>

theorem sector_allocation_percentages_sum:
  assumes "rows \<noteq> []" and "0 < sum_list (map current_value_jpy rows)"
  shows "\<exists>ras. calculate_sector_allocation (DataFrame rows) tc = Frame ras
           \<and> sum_list (map allocation_percentage ras) = 100
           \<and> \<bar>sum_list (map allocation_percentage ras) - 100\<bar> \<le> 1 / 10 ^ 6"
proof -
  from sector_allocation_sum [OF assms(2), of tc]
  obtain ras where "calculate_sector_allocation (Frame rows) tc = Frame ras"
    and "sum_list (map allocation_percentage ras) = 100"
    by blast
  with assms(1) show ?thesis by (simp add: DataFrame_def)
qed

theorem sector_allocation_percentages_sum_witness:
  "example_rows \<noteq> []
   \<and> 0 < sum_list (map current_value_jpy example_rows)
   \<and> (\<exists>ras. calculate_sector_allocation (DataFrame example_rows) example_countries = Frame ras
          \<and> map allocation_percentage ras = [50, 50]
          \<and> sum_list (map allocation_percentage ras) = 100)"
proof -
  have ne: "example_rows \<noteq> []" by (simp add: example_rows_def)
  have pos: "0 < sum_list (map current_value_jpy example_rows)"
    by (simp add: example_rows_def)
  from sector_allocation_percentages_sum [OF ne pos, of example_countries]
  obtain ras
    where ras: "calculate_sector_allocation (DataFrame example_rows) example_countries = Frame ras"
      and total: "sum_list (map allocation_percentage ras) = 100"
    by blast
  from ras have each: "map allocation_percentage ras = [50, 50]"
    by (auto simp: example_allocation)
  from ras each total
  have "\<exists>ras. calculate_sector_allocation (DataFrame example_rows) example_countries = Frame ras
          \<and> map allocation_percentage ras = [50, 50]
          \<and> sum_list (map allocation_percentage ras) = 100"
    by (intro exI [of _ ras] conjI)
  with ne pos show ?thesis by (intro conjI)
qed

subsection \<open>The P&L percentage of a region\<close>

lemma pnl_percentage_of_division:
  "fillna 0 (series_mul (series_div x y) 100) =
     (if y \<noteq> 0 then Finite (x / y * 100)
      else if x > 0 then PosInf else if x < 0 then NegInf else Finite 0)"
  by (simp add: series_div_def)

text \<open>
  What the source computes for every region of the returned frame: the quotient times 100
  for a cost basis other than zero; for a cost basis of zero, 0 only when the P&L amount
  is zero as well, and an infinity with the sign of the P&L amount otherwise.
\<close>

lemma sector_pnl_percentage:
  assumes "calculate_sector_allocation (Frame rows) tc = Frame ras" and "ra \<in> set ras"
  shows "region_pnl_percentage ra =
     (if region_cost_basis_jpy ra \<noteq> 0
      then Finite (region_pnl_amount ra / region_cost_basis_jpy ra * 100)
      else if region_pnl_amount ra > 0 then PosInf
      else if region_pnl_amount ra < 0 then NegInf
      else Finite 0)"
  using assms
  by (auto simp: calculate_sector_allocation_def calculate_sector_allocation_try_def Let_def
      region_fields_extend pnl_percentage_of_division)

text \<open>
  C2. The claim has a P&L percentage of 0 for a region with a cost basis of zero, also when
  its P&L amount is not zero. For one position of 10 shares with an average cost of 0,
  priced at 190 USD and converted at the fallback rate of 150, the source returns the
  region US with a cost basis of 0, a P&L amount of 285000 and a P&L percentage of plus
  infinity: \<open>fillna(0)\<close> replaces NaN only.
\<close>

theorem sector_pnl_percentage_zero_cost_basis:
  "calculate_sector_allocation
     (calculate_portfolio_pnl [\<lparr>Ticker = ''AAPL'', Shares = 10, AvgCostJPY = 0\<rparr>]
        (map_of [(''AAPL'', 190)]) Map.empty (map_of [(''AAPL'', ''USD'')])) None
   = Frame [\<lparr>country = US, region_current_value_jpy = 285000, region_cost_basis_jpy = 0,
             region_pnl_amount = 285000, position_count = 1, allocation_percentage = 100,
             region_pnl_percentage = PosInf\<rparr>]
   \<and> PosInf \<noteq> Finite 0"
  by (simp add: calculate_sector_allocation_def calculate_sector_allocation_try_def
      calculate_portfolio_pnl_def DataFrame_def get_exchange_rate_for_currency_def
      rate_mapping_def fallback_rates_def calculate_pnl_def calculate_pnl_try_def Let_def
      groupby_country_def region_order_def get_region_for_ticker_def sublist_code
      series_div_def pnl_data.defs pnl_row.defs region_agg.defs region_allocation.defs)

end
